theory Spec2Isabelle
  imports Complex_Main "HOL-Library.Word" "HOL-Library.Log_Nat"
begin

section \<open>Values shared by both components\<close>

text \<open>
  A \<open>Uint8Array\<close> is a list of bytes. JavaScript numbers that count things (entry fields,
  widths, lengths, dimensions) are natural numbers; the numbers stored in a \<open>PDFNumber\<close>
  are rationals, because \<open>embedImageIn\<close> stores the quotient \<open>palette.length / 3 - 1\<close>
  (a whole number for a palette of RGB triples).
\<close>

type_synonym byte = "8 word"

datatype error = TypeError | ValidationError | UnsupportedFormatError

datatype pdf_object =
    PDFName string
  | PDFNumber rat
  | PDFArray "pdf_object list"
  | PDFDictionary "(string \<times> pdf_object) list"
  | PDFIndirectReference nat
  | PDFRawStream "(string \<times> pdf_object) list" "byte list"

type_synonym dict = "(string \<times> pdf_object) list"

definition fromNumber :: "nat \<Rightarrow> pdf_object" where
  "fromNumber n = PDFNumber (of_nat n)"

text \<open>
  Modelled from the spec: the class \<open>PDFDictionary\<close> of \<open>core/pdf-objects\<close> is not among
  the sources. Section 6 describes it as an ordered mapping of name to value supporting
  \<open>set\<close> and \<open>get\<close>: \<open>set\<close> replaces the value of a key that is present, in place, and
  appends a key that is absent.
\<close>

fun dict_set :: "string \<Rightarrow> pdf_object \<Rightarrow> dict \<Rightarrow> dict" where
  "dict_set k v [] = [(k, v)]"
| "dict_set k v ((k', v') # d) =
     (if k' = k then (k, v) # d else (k', v') # dict_set k v d)"

fun dict_get :: "dict \<Rightarrow> string \<Rightarrow> pdf_object option" where
  "dict_get [] k = None"
| "dict_get ((k', v') # d) k = (if k' = k then Some v' else dict_get d k)"

section \<open>The entry table encoder (PDFXRefStream.ts)\<close>

subsection \<open>Library functions used by the encoder\<close>

text \<open>
  \<open>Number.prototype.toString(radix)\<close> on a non-negative integer: the digits of the number
  in the radix, most significant first, the single digit \<open>0\<close> for zero, letters in lower
  case.
\<close>

definition digit_char :: "nat \<Rightarrow> char" where
  "digit_char d = ''0123456789abcdefghijklmnopqrstuvwxyz'' ! d"

function toString_radix :: "nat \<Rightarrow> nat \<Rightarrow> string" where
  "toString_radix radix n =
     (if radix < 2 \<or> n < radix then [digit_char n]
      else toString_radix radix (n div radix) @ [digit_char (n mod radix)])"
  by pat_completeness auto
termination
  by (relation "measure snd") auto

text \<open>\<open>String.prototype.toUpperCase\<close> on ASCII text.\<close>

definition upper_char :: "char \<Rightarrow> char" where
  "upper_char c =
     (case map_of (zip ''abcdefghijklmnopqrstuvwxyz'' ''ABCDEFGHIJKLMNOPQRSTUVWXYZ'') c of
        None \<Rightarrow> c
      | Some u \<Rightarrow> u)"

definition toUpperCase :: "string \<Rightarrow> string" where
  "toUpperCase s = map upper_char s"

text \<open>
  lodash \<open>padStart(string, length, chars)\<close> with a one-character pad: the pad is put in
  front until the string has the length asked for; a string that is long enough is
  returned as it is.
\<close>

function padStart :: "string \<Rightarrow> nat \<Rightarrow> char \<Rightarrow> string" where
  "padStart s n c = (if length s < n then padStart (c # s) n c else s)"
  by pat_completeness auto
termination
  by (relation "measure (\<lambda>(s, n, c). n - length s)") auto

text \<open>\<open>Array.prototype.join\<close>.\<close>

fun join :: "string \<Rightarrow> string list \<Rightarrow> string" where
  "join sep [] = []"
| "join sep [s] = s"
| "join sep (s # t # ss) = s @ sep @ join sep (t # ss)"

text \<open>lodash \<open>max\<close>: \<open>undefined\<close> on an empty array, the greatest element otherwise.\<close>

fun lodash_max :: "nat list \<Rightarrow> nat option" where
  "lodash_max [] = None"
| "lodash_max (x # xs) = Some (fold max xs x)"

text \<open>\<open>Math.ceil(x / 8)\<close> on a natural number \<open>x\<close>; the quotient by 8 is exact in a double.\<close>

definition ceil_div8 :: "nat \<Rightarrow> nat" where
  "ceil_div8 x = (x + 7) div 8"

subsection \<open>The stream object\<close>

type_synonym entry = "nat \<times> nat \<times> nat"

record xref_stream =
  dictionary :: dict
  entries :: "entry list"

definition create :: xref_stream where
  "create = \<lparr> dictionary = [(''Type'', PDFName ''XRef''), (''Filter'', PDFName ''ASCIIHexDecode'')],
              entries = [] \<rparr>"

definition addFreeObjectEntry :: "nat \<Rightarrow> nat \<Rightarrow> xref_stream \<Rightarrow> xref_stream" where
  "addFreeObjectEntry nextFreeObjectNum generationNum s =
     s\<lparr>entries := entries s @ [(0, nextFreeObjectNum, generationNum)]\<rparr>"

definition addUncompressedObjectEntry :: "nat \<Rightarrow> nat \<Rightarrow> xref_stream \<Rightarrow> xref_stream" where
  "addUncompressedObjectEntry byteOffset generationNum s =
     s\<lparr>entries := entries s @ [(1, byteOffset, generationNum)]\<rparr>"

definition addCompressedObjectEntry :: "nat \<Rightarrow> nat \<Rightarrow> xref_stream \<Rightarrow> xref_stream" where
  "addCompressedObjectEntry objectStreamNum index s =
     s\<lparr>entries := entries s @ [(2, objectStreamNum, index)]\<rparr>"

text \<open>
  \<open>maxEntryByteWidths\<close>: on an empty entry list \<open>max\<close> returns \<open>undefined\<close> and the call of
  \<open>toString\<close> on it throws a \<open>TypeError\<close>.
\<close>

definition byteWidth :: "nat list \<Rightarrow> error + nat" where
  "byteWidth column =
     (case lodash_max column of
        None \<Rightarrow> Inl TypeError
      | Some m \<Rightarrow> Inr (ceil_div8 (length (toString_radix 2 m))))"

definition maxEntryByteWidths :: "entry list \<Rightarrow> error + (nat \<times> nat \<times> nat)" where
  "maxEntryByteWidths es =
     (case byteWidth (map (\<lambda>(x, _, _). x) es) of
        Inl e \<Rightarrow> Inl e
      | Inr w1 \<Rightarrow>
     (case byteWidth (map (\<lambda>(_, x, _). x) es) of
        Inl e \<Rightarrow> Inl e
      | Inr w2 \<Rightarrow>
     (case byteWidth (map (\<lambda>(_, _, x). x) es) of
        Inl e \<Rightarrow> Inl e
      | Inr w3 \<Rightarrow> Inr (w1, w2, w3))))"

definition entryToString :: "nat \<times> nat \<times> nat \<Rightarrow> entry \<Rightarrow> string" where
  "entryToString entryWidths e =
     (case entryWidths of (e0, e1, e2) \<Rightarrow>
      case e of (first, second, third) \<Rightarrow>
        join '' ''
          [padStart (toUpperCase (toString_radix 16 first)) e0 CHR ''0'',
           padStart (toUpperCase (toString_radix 16 second)) e1 CHR ''0'',
           padStart (toUpperCase (toString_radix 16 third)) e2 CHR ''0''])"

definition entriesToString :: "entry list \<Rightarrow> error + string" where
  "entriesToString es =
     (case maxEntryByteWidths es of
        Inl e \<Rightarrow> Inl e
      | Inr (w1, w2, w3) \<Rightarrow>
          Inr (join [CHR ''\<newline>''] (map (entryToString (w1 * 2, w2 * 2, w3 * 2)) es)))"

text \<open>
  \<open>updateDictionary\<close> sets \<open>W\<close> and then \<open>Length\<close>. Either computation may throw; what was
  set before stays set. (\<open>PDFArray.fromArray\<close> also takes the dictionary's object index, which
  plays no part in the value built.)
\<close>

definition updateDictionary :: "xref_stream \<Rightarrow> xref_stream \<times> (error + unit)" where
  "updateDictionary s =
     (case maxEntryByteWidths (entries s) of
        Inl e \<Rightarrow> (s, Inl e)
      | Inr (w1, w2, w3) \<Rightarrow>
          (let s1 = s\<lparr>dictionary :=
                      dict_set ''W'' (PDFArray (map fromNumber [w1, w2, w3])) (dictionary s)\<rparr>
           in case entriesToString (entries s1) of
                Inl e \<Rightarrow> (s1, Inl e)
              | Inr str \<Rightarrow>
                  (s1\<lparr>dictionary :=
                        dict_set ''Length'' (fromNumber (length str)) (dictionary s1)\<rparr>,
                   Inr ())))"

text \<open>
  Modelled from the spec: \<open>validateDictionary\<close> is inherited from \<open>PDFStream\<close>, which is not
  among the sources. By section 4.1 it fails when a required header field is missing; the
  field a stream requires is \<open>Length\<close>.
\<close>

definition validateDictionary :: "xref_stream \<Rightarrow> error + unit" where
  "validateDictionary s =
     (case dict_get (dictionary s) ''Length'' of
        None \<Rightarrow> Inl ValidationError
      | Some _ \<Rightarrow> Inr ())"

text \<open>
  Modelled from the spec: \<open>addStringToBuffer\<close> of \<open>utils\<close> is not among the sources. A
  buffer is a \<open>Uint8Array\<close> view: the memory it shares with the caller and the offset at
  which the view starts. Writing a string stores the character codes at the start of the
  view, a store past the end of the memory being dropped as a typed array does, and
  returns the view that starts after the string.
\<close>

record buffer =
  memory :: "byte list"
  offset :: nat

fun writeChars :: "string \<Rightarrow> nat \<Rightarrow> byte list \<Rightarrow> byte list" where
  "writeChars [] i mem = mem"
| "writeChars (c # cs) i mem =
     writeChars cs (Suc i) (if i < length mem then mem[i := of_char c] else mem)"

definition addStringToBuffer :: "string \<Rightarrow> buffer \<Rightarrow> buffer" where
  "addStringToBuffer str b =
     \<lparr> memory = writeChars str (offset b) (memory b),
       offset = min (offset b + length str) (length (memory b)) \<rparr>"

text \<open>
  Modelled from the spec: the serialisation of \<open>PDFDictionary\<close> is not among the sources.
  By section 6 the dictionary obeys the byte-exact contract of every serialisable object: it
  has one rendering \<open>ser d\<close>, its \<open>bytesSize\<close> is the length of that rendering and its
  \<open>copyBytesInto\<close> writes that rendering. The rendering itself is a parameter.
\<close>

definition dict_bytesSize :: "(dict \<Rightarrow> string) \<Rightarrow> dict \<Rightarrow> nat" where
  "dict_bytesSize ser d = length (ser d)"

definition dict_copyBytesInto :: "(dict \<Rightarrow> string) \<Rightarrow> dict \<Rightarrow> buffer \<Rightarrow> buffer" where
  "dict_copyBytesInto ser d b = addStringToBuffer (ser d) b"

text \<open>
  \<open>bytesSize\<close> and \<open>copyBytesInto\<close> return the stream object as the call leaves it, and
  \<open>copyBytesInto\<close> also the memory as the call leaves it, whether the call throws or not.
  The result of a successful write is the remaining view, given by its offset.
\<close>

definition bytesSize :: "(dict \<Rightarrow> string) \<Rightarrow> xref_stream \<Rightarrow> xref_stream \<times> (error + nat)" where
  "bytesSize ser s =
     (case updateDictionary s of
        (s1, Inl e) \<Rightarrow> (s1, Inl e)
      | (s1, Inr _) \<Rightarrow>
          (case entriesToString (entries s1) of
             Inl e \<Rightarrow> (s1, Inl e)
           | Inr str \<Rightarrow>
               (s1, Inr (dict_bytesSize ser (dictionary s1) + 1 + 7 + length str + 10))))"

definition copyBytesInto ::
  "(dict \<Rightarrow> string) \<Rightarrow> xref_stream \<Rightarrow> buffer \<Rightarrow> xref_stream \<times> byte list \<times> (error + nat)" where
  "copyBytesInto ser s buf =
     (case updateDictionary s of
        (s1, Inl e) \<Rightarrow> (s1, memory buf, Inl e)
      | (s1, Inr _) \<Rightarrow>
     (case validateDictionary s1 of
        Inl e \<Rightarrow> (s1, memory buf, Inl e)
      | Inr _ \<Rightarrow>
          (let remaining = dict_copyBytesInto ser (dictionary s1) buf;
               remaining = addStringToBuffer ''\<newline>stream\<newline>'' remaining
           in case entriesToString (entries s1) of
                Inl e \<Rightarrow> (s1, memory remaining, Inl e)
              | Inr str \<Rightarrow>
                  (let remaining = addStringToBuffer str remaining;
                       remaining = addStringToBuffer ''\<newline>endstream'' remaining
                   in (s1, memory remaining, Inr (offset remaining))))))"

section \<open>The image embedding pipeline (PNGXObjectFactory.js)\<close>

subsection \<open>External collaborators\<close>

text \<open>
  The decoded image, as the external decoder hands it over: the fields of the \<open>PNG\<close>
  object that the factory reads. \<open>transparency_indexed\<close> is \<open>image.transparency.indexed\<close>,
  absent or a table with one alpha byte for each palette entry it covers.
  \<open>decodePixelsSync\<close> is the outcome of the call of that name: the decoded pixel bytes, or
  the error it throws.
\<close>

record png =
  width :: nat
  height :: nat
  bits :: nat
  colors :: nat
  colorSpace :: string
  hasAlphaChannel :: bool
  palette :: "byte list"
  transparency_indexed :: "byte list option"
  imgData :: "byte list"
  decodePixelsSync :: "error + byte list"

text \<open>
  Modelled from the spec: \<open>PDFDocument.register\<close> is not among the sources. By section 6 it
  allocates a strictly increasing, unique integer identity in call order and returns the
  reference; the document keeps the registered objects in that order.
\<close>

record pdf_document =
  maxObjNum :: nat
  objects :: "(nat \<times> pdf_object) list"

definition register :: "pdf_object \<Rightarrow> pdf_document \<Rightarrow> pdf_document \<times> pdf_object" where
  "register obj doc =
     (doc\<lparr>maxObjNum := maxObjNum doc + 1,
          objects := objects doc @ [(maxObjNum doc + 1, obj)]\<rparr>,
      PDFIndirectReference (maxObjNum doc + 1))"

definition empty_document :: pdf_document where
  "empty_document = \<lparr> maxObjNum = 0, objects = [] \<rparr>"

text \<open>
  Typed arrays. A read past the end yields \<open>undefined\<close>; a store past the end is dropped; a
  stored \<open>undefined\<close> becomes 0; \<open>new Uint8Array(n)\<close> is zero-filled and truncates a
  fractional length.
\<close>

definition u8_read :: "byte list \<Rightarrow> nat \<Rightarrow> byte option" where
  "u8_read xs i = (if i < length xs then Some (xs ! i) else None)"

definition u8_store :: "byte list \<Rightarrow> nat \<Rightarrow> byte option \<Rightarrow> byte list" where
  "u8_store xs i v =
     (if i < length xs then xs[i := (case v of None \<Rightarrow> 0 | Some b \<Rightarrow> b)] else xs)"

definition new_Uint8Array :: "rat \<Rightarrow> byte list" where
  "new_Uint8Array n = replicate (nat \<lfloor>n\<rfloor>) 0"

subsection \<open>The factory\<close>

text \<open>
  The fields of the class. \<open>this_width\<close>, \<open>this_height\<close> and \<open>this_imgData\<close> are the
  factory's own copies of the image's fields. \<open>alphaChannel\<close> is unset until one of the two
  alpha paths assigns it. \<open>xObjDict\<close> and \<open>document\<close> are unset until \<open>embedImageIn\<close>
  assigns them, which it does before it reads them.
\<close>

record factory =
  image :: png
  this_width :: nat
  this_height :: nat
  this_imgData :: "byte list"
  alphaChannel :: "byte list option"
  xObjDict :: dict
  document :: pdf_document

text \<open>
  The constructor, from the decoder's result (the decoder itself is external).
\<close>

definition factory_for :: "png \<Rightarrow> factory" where
  "factory_for img =
     \<lparr> image = img, this_width = width img, this_height = height img,
       this_imgData = imgData img, alphaChannel = None, xObjDict = [],
       document = empty_document \<rparr>"

text \<open>The compressor \<open>pako.deflate\<close> is external: a parameter \<open>deflate\<close> from bytes to bytes.\<close>

definition finalize :: "(byte list \<Rightarrow> byte list) \<Rightarrow> factory \<Rightarrow> factory \<times> pdf_object" where
  "finalize deflate f =
     (let f1 =
        (case alphaChannel f of
           None \<Rightarrow> f
         | Some alpha \<Rightarrow>
             (let alphaStreamDict =
                    [(''Type'', PDFName ''XObject''),
                     (''Subtype'', PDFName ''Image''),
                     (''Height'', fromNumber (this_height f)),
                     (''Width'', fromNumber (this_width f)),
                     (''BitsPerComponent'', fromNumber 8),
                     (''Filter'', PDFName ''FlateDecode''),
                     (''ColorSpace'', PDFName ''DeviceGray''),
                     (''Decode'', PDFArray [fromNumber 0, fromNumber 1]),
                     (''Length'', fromNumber (length alpha))];
                  reg = register (PDFRawStream alphaStreamDict (deflate alpha)) (document f)
              in f\<lparr>document := fst reg,
                    xObjDict := dict_set ''SMask'' (snd reg) (xObjDict f)\<rparr>));
          f2 = f1\<lparr>xObjDict :=
                    dict_set ''Length'' (fromNumber (length (this_imgData f1))) (xObjDict f1)\<rparr>;
          reg = register (PDFRawStream (xObjDict f2) (this_imgData f2)) (document f2)
      in (f2\<lparr>document := fst reg\<rparr>, snd reg))"

text \<open>
  The loop of \<open>splitAlphaChannel\<close>: four pixel bytes a round, three to the colour buffer
  and one to the alpha buffer.
\<close>

function splitLoop ::
  "byte list \<Rightarrow> nat \<Rightarrow> nat \<Rightarrow> nat \<Rightarrow> byte list \<Rightarrow> byte list \<Rightarrow> byte list \<times> byte list" where
  "splitLoop pixels i p a colorData alpha =
     (if i < length pixels then
        splitLoop pixels (i + 4) (p + 3) (a + 1)
          (u8_store
             (u8_store
                (u8_store colorData p (u8_read pixels i))
                (p + 1) (u8_read pixels (i + 1)))
             (p + 2) (u8_read pixels (i + 2)))
          (u8_store alpha a (u8_read pixels (i + 3)))
      else (colorData, alpha))"
  by pat_completeness auto
termination
  by (relation "measure (\<lambda>(pixels, i, p, a, colorData, alpha). length pixels - i)") auto

definition splitAlphaChannel ::
  "(byte list \<Rightarrow> byte list) \<Rightarrow> factory \<Rightarrow> factory \<times> (error + pdf_object)" where
  "splitAlphaChannel deflate f =
     (case decodePixelsSync (image f) of
        Inl e \<Rightarrow> (f, Inl e)
      | Inr pixels \<Rightarrow>
          (let colorByteSize = of_nat (colors (image f) * bits (image f)) / 8;
               pixelCount = width (image f) * height (image f);
               split = splitLoop pixels 0 0 0
                         (new_Uint8Array (of_nat pixelCount * colorByteSize))
                         (new_Uint8Array (of_nat pixelCount));
               f1 = f\<lparr>this_imgData := deflate (fst split), alphaChannel := Some (snd split)\<rparr>;
               fin = finalize deflate f1
           in (fst fin, Inr (snd fin))))"

text \<open>
  The \<open>forEach\<close> of \<open>loadIndexedAlphaChannel\<close>: pixel \<open>idx\<close> stores the table entry at its
  palette index.
\<close>

fun loadLoop :: "byte list \<Rightarrow> byte list \<Rightarrow> nat \<Rightarrow> byte list \<Rightarrow> byte list" where
  "loadLoop transparency [] idx alpha = alpha"
| "loadLoop transparency (pixel # pixels) idx alpha =
     loadLoop transparency pixels (Suc idx)
       (u8_store alpha idx (u8_read transparency (unat pixel)))"

text \<open>
  With no table, indexing \<open>undefined\<close> throws at the first pixel, after the alpha buffer was
  allocated.
\<close>

definition loadIndexedAlphaChannel ::
  "(byte list \<Rightarrow> byte list) \<Rightarrow> factory \<Rightarrow> factory \<times> (error + pdf_object)" where
  "loadIndexedAlphaChannel deflate f =
     (case decodePixelsSync (image f) of
        Inl e \<Rightarrow> (f, Inl e)
      | Inr pixels \<Rightarrow>
          (let f1 = f\<lparr>alphaChannel :=
                      Some (new_Uint8Array (of_nat (this_width f * this_height f)))\<rparr>
           in case transparency_indexed (image f) of
                None \<Rightarrow>
                  (if pixels = [] then
                     (let fin = finalize deflate f1 in (fst fin, Inr (snd fin)))
                   else (f1, Inl TypeError))
              | Some transparency \<Rightarrow>
                  (let f2 = f1\<lparr>alphaChannel :=
                              Some (loadLoop transparency pixels 0
                                      (new_Uint8Array (of_nat (this_width f * this_height f))))\<rparr>;
                       fin = finalize deflate f2
                   in (fst fin, Inr (snd fin)))))"

definition embedImageIn ::
  "(byte list \<Rightarrow> byte list) \<Rightarrow> factory \<Rightarrow> pdf_document \<Rightarrow> factory \<times> (error + pdf_object)" where
  "embedImageIn deflate f doc =
     (let f1 = f\<lparr>document := doc,
                 xObjDict :=
                   [(''Type'', PDFName ''XObject''),
                    (''Subtype'', PDFName ''Image''),
                    (''BitsPerComponent'', fromNumber (bits (image f))),
                    (''Width'', fromNumber (this_width f)),
                    (''Height'', fromNumber (this_height f)),
                    (''Filter'', PDFName ''FlateDecode'')]\<rparr>;
          f2 = (if \<not> hasAlphaChannel (image f1) then
                  f1\<lparr>xObjDict :=
                       dict_set ''DecodeParms''
                         (PDFDictionary
                            [(''Predictor'', fromNumber 15),
                             (''Colors'', fromNumber (colors (image f1))),
                             (''BitsPerComponent'', fromNumber (bits (image f1))),
                             (''Columns'', fromNumber (this_width f1))])
                         (xObjDict f1)\<rparr>
                else f1);
          f3 = (if length (palette (image f2)) = 0 then
                  f2\<lparr>xObjDict :=
                       dict_set ''ColorSpace'' (PDFName (colorSpace (image f2))) (xObjDict f2)\<rparr>
                else
                  (let reg = register
                               (PDFRawStream
                                  [(''Length'', fromNumber (length (palette (image f2))))]
                                  (palette (image f2)))
                               (document f2)
                   in f2\<lparr>document := fst reg,
                          xObjDict :=
                            dict_set ''ColorSpace''
                              (PDFArray
                                 [PDFName ''Indexed'',
                                  PDFName ''DeviceRGB'',
                                  PDFNumber (of_nat (length (palette (image f2))) / 3 - 1),
                                  snd reg])
                              (xObjDict f2)\<rparr>))
      in case transparency_indexed (image f3) of
           Some _ \<Rightarrow> loadIndexedAlphaChannel deflate f3
         | None \<Rightarrow>
             (if hasAlphaChannel (image f3) then splitAlphaChannel deflate f3
              else (let fin = finalize deflate f3 in (fst fin, Inr (snd fin)))))"

section \<open>Definitions used to state the properties\<close>

text \<open>
  The field width property in the words of the specification: a width \<open>w\<close> fits a column
  maximum \<open>m\<close> when \<open>2^(8*w) > m\<close> and, if \<open>m > 0\<close>, \<open>2^(8*(w-1)) \<le> m\<close>.
\<close>

definition width_correct :: "nat \<Rightarrow> nat \<Rightarrow> bool" where
  "width_correct w m = (m < 2 ^ (8 * w) \<and> (if 0 < m then 2 ^ (8 * (w - 1)) \<le> m else True))"

text \<open>
  The width in terms of the bit length \<open>floorlog 2 m\<close> of a column maximum \<open>m\<close> (the bit
  length of 0 is 0): one byte for \<open>m = 0\<close>, whose base-2 numeral is the single digit 0, and
  \<open>ceil(bitlength(m) / 8)\<close> bytes otherwise.
\<close>

definition digits_width :: "nat \<Rightarrow> nat" where
  "digits_width m = (if m = 0 then 1 else ceil_div8 (floorlog 2 m))"

text \<open>The table of the worked example, built by the three operations that add entries.\<close>

definition worked_example :: xref_stream where
  "worked_example =
     addCompressedObjectEntry 5 3
       (addUncompressedObjectEntry 1000 0 (addFreeObjectEntry 0 65535 create))"

text \<open>A dictionary rendering for examples: the keys of the dictionary, one after another.\<close>

definition keys_rendering :: "dict \<Rightarrow> string" where
  "keys_rendering d = concat (map fst d)"

text \<open>
  A function from bytes to bytes that stands for the external compressor in the examples:
  it puts two bytes in front of its input.
\<close>

definition example_deflate :: "byte list \<Rightarrow> byte list" where
  "example_deflate bs = 120 # 156 # bs"

text \<open>
  Example images: one RGBA pixel; an indexed image of 2 by 2 pixels with a palette of four
  colours and an alpha table that covers the first two of them; and the same image when the
  decoder rejects its pixel data.
\<close>

definition rgba_pixel :: png where
  "rgba_pixel =
     \<lparr> width = 1, height = 1, bits = 8, colors = 3, colorSpace = ''DeviceRGB'',
       hasAlphaChannel = True, palette = [], transparency_indexed = None,
       imgData = [1, 2, 3], decodePixelsSync = Inr [255, 0, 7, 128] \<rparr>"

definition indexed_2x2 :: png where
  "indexed_2x2 =
     \<lparr> width = 2, height = 2, bits = 8, colors = 1, colorSpace = ''DeviceRGB'',
       hasAlphaChannel = False, palette = [255, 0, 0, 0, 255, 0, 0, 0, 255, 9, 9, 9],
       transparency_indexed = Some [10, 20], imgData = [1, 2, 3],
       decodePixelsSync = Inr [0, 1, 2, 1] \<rparr>"

definition indexed_undecodable :: png where
  "indexed_undecodable = indexed_2x2\<lparr>decodePixelsSync := Inl UnsupportedFormatError\<rparr>"




section \<open>The entry table encoder: properties\<close>

declare toString_radix.simps [simp del] padStart.simps [simp del] splitLoop.simps [simp del]

lemma padStart_eq: "padStart s n c = replicate (n - length s) c @ s"
proof (induction s n c rule: padStart.induct)
  case (1 s n c)
  show ?case
  proof (cases "length s < n")
    case True
    then have "n - length s = Suc (n - Suc (length s))" by simp
    with True 1 show ?thesis
      by (subst padStart.simps) (simp add: replicate_app_Cons_same)
  next
    case False
    then show ?thesis by (subst padStart.simps) simp
  qed
qed

lemma length_padStart: "length (padStart s n c) = max n (length s)"
  by (simp add: padStart_eq)

lemma lodash_max_nonempty:
  assumes "xs \<noteq> []"
  shows "lodash_max xs = Some (Max (set xs))"
proof -
  from assms obtain a list where xs: "xs = a # list" by (cases xs) auto
  show ?thesis
    unfolding xs using Max.set_eq_fold [of a list] by simp
qed

lemma toString2_length_pos: "0 < length (toString_radix 2 n)"
  by (subst toString_radix.simps) simp

lemma toString2_upper: "n < 2 ^ length (toString_radix 2 n)"
proof (induction "2::nat" n rule: toString_radix.induct)
  case (1 n)
  show ?case
  proof (cases "n < 2")
    case True
    then show ?thesis by (subst toString_radix.simps) simp
  next
    case False
    with 1 have "n div 2 < 2 ^ length (toString_radix 2 (n div 2))" by simp
    then have "n < 2 * 2 ^ length (toString_radix 2 (n div 2))" by linarith
    with False show ?thesis by (subst toString_radix.simps) simp
  qed
qed

lemma toString2_lower: "0 < n \<Longrightarrow> 2 ^ (length (toString_radix 2 n) - 1) \<le> n"
proof (induction "2::nat" n rule: toString_radix.induct)
  case (1 n)
  show ?case
  proof (cases "n < 2")
    case True
    with 1(2) show ?thesis by (subst toString_radix.simps) simp
  next
    case False
    then have pos: "0 < n div 2" by simp
    with 1(1) False have ih: "2 ^ (length (toString_radix 2 (n div 2)) - 1) \<le> n div 2" by simp
    have "length (toString_radix 2 n) - 1 = Suc (length (toString_radix 2 (n div 2)) - 1)"
      using False toString2_length_pos [of "n div 2"]
      by (subst toString_radix.simps) simp
    moreover have "2 * 2 ^ (length (toString_radix 2 (n div 2)) - 1) \<le> n"
      using ih by linarith
    ultimately show ?thesis by simp
  qed
qed

lemma floorlog2_step: "2 \<le> n \<Longrightarrow> floorlog 2 n = Suc (floorlog 2 (n div 2))"
  using compute_floorlog [of 2 n] by simp

lemma floorlog2_one: "floorlog 2 (Suc 0) = Suc 0"
  using compute_floorlog [of 2 1] compute_floorlog [of 2 0] by simp

lemma toString2_length: "length (toString_radix 2 n) = (if n = 0 then 1 else floorlog 2 n)"
proof (induction "2::nat" n rule: toString_radix.induct)
  case (1 n)
  show ?case
  proof (cases "n < 2")
    case True
    then have "n = 0 \<or> n = Suc 0" by auto
    then show ?thesis
      by (subst toString_radix.simps) (auto simp: floorlog2_one)
  next
    case False
    then have pos: "n div 2 \<noteq> 0" by simp
    with 1 False have "length (toString_radix 2 (n div 2)) = floorlog 2 (n div 2)" by simp
    with False show ?thesis
      by (subst toString_radix.simps) (simp add: floorlog2_step)
  qed
qed

lemma byteWidth_nonempty:
  "column \<noteq> [] \<Longrightarrow>
   byteWidth column = Inr (ceil_div8 (length (toString_radix 2 (Max (set column)))))"
  by (simp add: byteWidth_def lodash_max_nonempty)

lemma byteWidth_empty: "byteWidth [] = Inl TypeError"
  by (simp add: byteWidth_def)

lemma column_projections:
  "(\<lambda>(x, _, _). x) = fst" "(\<lambda>(_, x, _). x) = fst \<circ> snd" "(\<lambda>(_, _, x). x) = snd \<circ> snd"
  by (auto simp: fun_eq_iff)

lemma maxEntryByteWidths_nonempty:
  "es \<noteq> [] \<Longrightarrow>
   maxEntryByteWidths es =
     Inr (ceil_div8 (length (toString_radix 2 (Max (set (map fst es))))),
          ceil_div8 (length (toString_radix 2 (Max (set (map (fst \<circ> snd) es))))),
          ceil_div8 (length (toString_radix 2 (Max (set (map (snd \<circ> snd) es))))))"
  by (simp add: maxEntryByteWidths_def byteWidth_nonempty column_projections del: set_map)

lemma maxEntryByteWidths_empty: "maxEntryByteWidths [] = Inl TypeError"
  by (simp add: maxEntryByteWidths_def byteWidth_empty)

lemma ceil_div8_width_correct: "width_correct (ceil_div8 (length (toString_radix 2 m))) m"
proof -
  let ?L = "length (toString_radix 2 m)"
  let ?w = "ceil_div8 ?L"
  have Lpos: "0 < ?L" by (rule toString2_length_pos)
  have le: "?L \<le> 8 * ?w" by (simp add: ceil_div8_def)
  have "m < 2 ^ ?L" by (rule toString2_upper)
  also have "(2::nat) ^ ?L \<le> 2 ^ (8 * ?w)" using le by (simp add: power_increasing)
  finally have upper: "m < 2 ^ (8 * ?w)" .
  have lower: "2 ^ (8 * (?w - 1)) \<le> m" if "0 < m"
  proof -
    have "8 * (?w - 1) \<le> ?L - 1" using Lpos by (simp add: ceil_div8_def)
    then have "(2::nat) ^ (8 * (?w - 1)) \<le> 2 ^ (?L - 1)" by (simp add: power_increasing)
    also have "\<dots> \<le> m" using that by (rule toString2_lower)
    finally show ?thesis .
  qed
  show ?thesis using upper lower by (simp add: width_correct_def)
qed

text \<open>
  C5: for every non-empty entry list the encoder derives three widths, and each width
  \<open>w\<close> fits the maximum \<open>m\<close> of its column: \<open>2^(8*w) > m\<close> and, if \<open>m > 0\<close>,
  \<open>2^(8*(w-1)) \<le> m\<close>.
\<close>

theorem field_widths_fit_column_maxima:
  assumes "es \<noteq> []"
  shows "\<exists>w1 w2 w3. maxEntryByteWidths es = Inr (w1, w2, w3)
           \<and> width_correct w1 (Max (set (map fst es)))
           \<and> width_correct w2 (Max (set (map (fst \<circ> snd) es)))
           \<and> width_correct w3 (Max (set (map (snd \<circ> snd) es)))"
  using assms by (simp add: maxEntryByteWidths_nonempty ceil_div8_width_correct del: set_map)

text \<open>
  C3, as the code has it: for every non-empty entry list the width of a column is
  \<open>ceil(L / 8)\<close> for the number \<open>L\<close> of digits of the base-2 numeral of the column's
  maximum \<open>m\<close>. That is \<open>ceil(bitlength(m) / 8)\<close> when \<open>m > 0\<close>, and 1 when \<open>m = 0\<close>: a column
  whose values are all 0 gets width 1, not 0.
\<close>

theorem field_widths_from_binary_digits:
  assumes "es \<noteq> []"
  shows "maxEntryByteWidths es =
           Inr (digits_width (Max (set (map fst es))),
                digits_width (Max (set (map (fst \<circ> snd) es))),
                digits_width (Max (set (map (snd \<circ> snd) es))))"
  using assms
  by (simp add: maxEntryByteWidths_nonempty toString2_length digits_width_def ceil_div8_def del: set_map)

lemma ex_widths: "maxEntryByteWidths [(0, 70000, 0)] = Inr (1, 3, 1)"
  by (simp add: maxEntryByteWidths_def byteWidth_def ceil_div8_def digit_char_def toString_radix.simps)

theorem field_widths_fit_column_maxima_witness:
  "[(0, 70000, 0)] \<noteq> ([] :: entry list)
   \<and> maxEntryByteWidths [(0, 70000, 0)] = Inr (1, 3, 1)
   \<and> width_correct 1 0 \<and> width_correct 3 70000"
  using field_widths_fit_column_maxima [of "[(0, 70000, 0)]"] by (simp add: ex_widths)

theorem field_widths_from_binary_digits_witness:
  "[(0, 70000, 0)] \<noteq> ([] :: entry list)
   \<and> Inr (1, 3, 1) = Inr (digits_width 0, digits_width 70000, digits_width 0)"
  using field_widths_from_binary_digits [of "[(0, 70000, 0)]"] by (simp add: ex_widths)

text \<open>
  The entry list \<open>[(0, 70000, 0)]\<close> has only zeros in its first and third column. The
  formula \<open>ceil(bitlength(0) / 8)\<close> is 0, and the code derives width 1 for both columns.
\<close>

theorem all_zero_column_width_counterexample:
  "ceil_div8 (floorlog 2 0) = 0
   \<and> maxEntryByteWidths [(0, 70000, 0)] = Inr (1, 3, 1)
   \<and> maxEntryByteWidths [(0, 70000, 0)]
       \<noteq> Inr (ceil_div8 (floorlog 2 0), ceil_div8 (floorlog 2 70000), ceil_div8 (floorlog 2 0))"
proof -
  have z: "ceil_div8 (floorlog 2 0) = 0"
    by (simp add: ceil_div8_def floorlog_eq_zero_iff)
  show ?thesis
    unfolding z by (simp add: ex_widths)
qed

lemma dict_get_set: "dict_get (dict_set k v d) k' = (if k' = k then Some v else dict_get d k')"
  by (induction d) auto

lemma dict_set_same: "dict_get d k = Some v \<Longrightarrow> dict_set k v d = d"
  by (induction d) (auto split: if_splits)

lemma entriesToString_nonempty:
  "es \<noteq> [] \<Longrightarrow> \<exists>str. entriesToString es = Inr str"
  by (simp add: entriesToString_def maxEntryByteWidths_nonempty)

lemma entriesToString_empty: "entriesToString [] = Inl TypeError"
  by (simp add: entriesToString_def maxEntryByteWidths_empty)

lemma updateDictionary_empty: "entries s = [] \<Longrightarrow> updateDictionary s = (s, Inl TypeError)"
  by (simp add: updateDictionary_def maxEntryByteWidths_empty)

lemma updateDictionary_nonempty:
  assumes "maxEntryByteWidths (entries s) = Inr (w1, w2, w3)"
    and "entriesToString (entries s) = Inr str"
  shows "updateDictionary s =
           (s\<lparr>dictionary :=
                dict_set ''Length'' (fromNumber (length str))
                  (dict_set ''W'' (PDFArray (map fromNumber [w1, w2, w3])) (dictionary s))\<rparr>,
            Inr ())"
  using assms by (simp add: updateDictionary_def)

lemma updateDictionary_entries: "entries (fst (updateDictionary s)) = entries s"
  by (auto simp: updateDictionary_def Let_def split: sum.splits prod.splits)

lemma updateDictionary_idem:
  assumes "updateDictionary s = (s1, Inr u)"
  shows "updateDictionary s1 = (s1, Inr ())"
proof -
  from assms obtain w1 w2 w3 where w: "maxEntryByteWidths (entries s) = Inr (w1, w2, w3)"
    by (auto simp: updateDictionary_def split: sum.splits)
  from assms w obtain str where str: "entriesToString (entries s) = Inr str"
    by (auto simp: updateDictionary_def Let_def split: sum.splits)
  let ?d = "dict_set ''Length'' (fromNumber (length str))
              (dict_set ''W'' (PDFArray (map fromNumber [w1, w2, w3])) (dictionary s))"
  from assms have s1: "s1 = s\<lparr>dictionary := ?d\<rparr>"
    by (simp add: updateDictionary_nonempty [OF w str])
  have W: "dict_set ''W'' (PDFArray (map fromNumber [w1, w2, w3])) ?d = ?d"
    by (rule dict_set_same) (simp add: dict_get_set)
  have L: "dict_set ''Length'' (fromNumber (length str)) ?d = ?d"
    by (rule dict_set_same) (simp add: dict_get_set)
  have d1: "dictionary s1 = ?d" by (simp add: s1)
  have "updateDictionary s1 =
          (s1\<lparr>dictionary := dict_set ''Length'' (fromNumber (length str))
                 (dict_set ''W'' (PDFArray (map fromNumber [w1, w2, w3])) (dictionary s1))\<rparr>, Inr ())"
    by (rule updateDictionary_nonempty) (simp_all add: s1 w str)
  also have "dict_set ''Length'' (fromNumber (length str))
                 (dict_set ''W'' (PDFArray (map fromNumber [w1, w2, w3])) (dictionary s1)) = ?d"
    unfolding d1 W L ..
  also have "s1\<lparr>dictionary := ?d\<rparr> = s1" by (simp add: s1)
  finally show ?thesis .
qed

lemma updateDictionary_has_Length:
  "updateDictionary s = (s1, Inr u) \<Longrightarrow> validateDictionary s1 = Inr ()"
  by (auto simp: updateDictionary_def validateDictionary_def Let_def dict_get_set
      split: sum.splits)

lemma length_writeChars: "length (writeChars str i mem) = length mem"
  by (induction str arbitrary: i mem) auto

lemma writeChars_append:
  "writeChars (s @ t) i mem = writeChars t (i + length s) (writeChars s i mem)"
  by (induction s arbitrary: i mem) auto

lemma writeChars_beyond: "length mem \<le> i \<Longrightarrow> writeChars str i mem = mem"
  by (induction str arbitrary: i) auto

lemma writeChars_fits:
  "i + length str \<le> length mem \<Longrightarrow>
   writeChars str i mem = take i mem @ map of_char str @ drop (i + length str) mem"
proof (induction str arbitrary: i mem)
  case Nil
  then show ?case by simp
next
  case (Cons c cs)
  then have i: "i < length mem" by simp
  let ?mem = "mem[i := of_char c]"
  from Cons.prems have "Suc i + length cs \<le> length ?mem" by simp
  then have "writeChars cs (Suc i) ?mem =
               take (Suc i) ?mem @ map of_char cs @ drop (Suc i + length cs) ?mem"
    by (rule Cons.IH)
  moreover have "take (Suc i) ?mem = take i mem @ [of_char c]"
    using i by (simp add: take_Suc_conv_app_nth)
  moreover have "drop (Suc i + length cs) ?mem = drop (i + length (c # cs)) mem"
    by simp
  ultimately show ?case using i by simp
qed

lemma addStringToBuffer_append:
  "addStringToBuffer t (addStringToBuffer s b) = addStringToBuffer (s @ t) b"
proof (cases "offset b + length s \<le> length (memory b)")
  case True
  then show ?thesis
    by (simp add: addStringToBuffer_def writeChars_append length_writeChars min_def)
next
  case False
  then show ?thesis
    by (simp add: addStringToBuffer_def writeChars_append length_writeChars min_def
        writeChars_beyond)
qed

lemma worked_example_entries:
  "entries worked_example = [(0, 0, 65535), (1, 1000, 0), (2, 5, 3)]"
  by (simp add: worked_example_def create_def addFreeObjectEntry_def
      addUncompressedObjectEntry_def addCompressedObjectEntry_def)

lemma worked_example_dictionary:
  "dictionary worked_example =
     [(''Type'', PDFName ''XRef''), (''Filter'', PDFName ''ASCIIHexDecode'')]"
  by (simp add: worked_example_def create_def addFreeObjectEntry_def
      addUncompressedObjectEntry_def addCompressedObjectEntry_def)

lemma worked_example_widths:
  "maxEntryByteWidths (entries worked_example) = Inr (1, 2, 2)"
  unfolding worked_example_entries
  by (simp add: maxEntryByteWidths_def byteWidth_def ceil_div8_def toString_radix.simps)

lemma worked_example_rows:
  "map (entryToString (2, 4, 4)) (entries worked_example) =
     [''00 0000 FFFF'', ''01 03E8 0000'', ''02 0005 0003'']"
  unfolding worked_example_entries
  by (simp add: entryToString_def toUpperCase_def upper_char_def digit_char_def
      toString_radix.simps padStart.simps)

lemma worked_example_string:
  "entriesToString (entries worked_example) =
     Inr ''00 0000 FFFF\<newline>01 03E8 0000\<newline>02 0005 0003''"
  by (simp add: entriesToString_def worked_example_widths worked_example_rows)

lemma worked_example_update:
  "updateDictionary worked_example =
     (worked_example\<lparr>dictionary :=
        dict_set ''Length'' (PDFNumber 38)
          (dict_set ''W'' (PDFArray [PDFNumber 1, PDFNumber 2, PDFNumber 2])
             (dictionary worked_example))\<rparr>,
      Inr ())"
  by (simp add: updateDictionary_def worked_example_widths worked_example_string
      fromNumber_def)

text \<open>
  C6: the worked example. The entries \<open>[(Free,0,65535), (Uncompressed,1000,0),
  (Compressed,5,3)]\<close> give the widths \<open>[1,2,2]\<close>; the payload is the three rows
  \<open>00 0000 FFFF\<close>, \<open>01 03E8 0000\<close>, \<open>02 0005 0003\<close> joined by newlines, in insertion
  order; the header's \<open>W\<close> holds the widths and its \<open>Length\<close> the length of the joined
  string, which is 38.
\<close>

theorem worked_example_table:
  "entries worked_example = [(0, 0, 65535), (1, 1000, 0), (2, 5, 3)]
   \<and> maxEntryByteWidths (entries worked_example) = Inr (1, 2, 2)
   \<and> entriesToString (entries worked_example) =
       Inr (join [CHR ''\<newline>''] [''00 0000 FFFF'', ''01 03E8 0000'', ''02 0005 0003''])
   \<and> snd (updateDictionary worked_example) = Inr ()
   \<and> dict_get (dictionary (fst (updateDictionary worked_example))) ''W''
       = Some (PDFArray [PDFNumber 1, PDFNumber 2, PDFNumber 2])
   \<and> dict_get (dictionary (fst (updateDictionary worked_example))) ''Length''
       = Some (fromNumber
           (length (join [CHR ''\<newline>''] [''00 0000 FFFF'', ''01 03E8 0000'', ''02 0005 0003''])))
   \<and> length (join [CHR ''\<newline>''] [''00 0000 FFFF'', ''01 03E8 0000'', ''02 0005 0003'']) = 38"
  by (simp add: worked_example_widths worked_example_string worked_example_update
      fromNumber_def dict_get_set)
     (simp add: worked_example_entries)

text \<open>
  C9: with no entries, \<open>bytesSize\<close> and \<open>copyBytesInto\<close> both fail, and the failed write
  leaves the memory of the buffer, and the stream object, as they were.
\<close>

theorem empty_table_fails_without_output:
  assumes "entries s = []"
  shows "bytesSize ser s = (s, Inl TypeError)
         \<and> copyBytesInto ser s buf = (s, memory buf, Inl TypeError)"
  using assms by (simp add: bytesSize_def copyBytesInto_def updateDictionary_empty)

theorem empty_table_fails_without_output_witness:
  "entries create = []
   \<and> bytesSize keys_rendering create = (create, Inl TypeError)
   \<and> copyBytesInto keys_rendering create \<lparr>memory = [1, 2, 3], offset = 0\<rparr>
       = (create, [1, 2, 3], Inl TypeError)"
proof -
  have e: "entries create = []" by (simp add: create_def)
  from empty_table_fails_without_output
         [OF e, of keys_rendering "\<lparr>memory = [1, 2, 3], offset = 0\<rparr>"] e
  show ?thesis by simp
qed

text \<open>
  C1: for every non-empty entry list \<open>bytesSize\<close> returns a size \<open>n\<close>, which is the length
  of the dictionary's rendering plus the framing \<open>\<newline>stream\<newline>\<close> and \<open>\<newline>endstream\<close> plus the
  rendered entries string; and \<open>copyBytesInto\<close>, called on the object as \<open>bytesSize\<close> left
  it, writes exactly these \<open>n\<close> bytes into a buffer that has room for them: the memory
  before the view and after the \<open>n\<close> bytes is unchanged, and the remaining view starts
  \<open>n\<close> bytes further on.
\<close>

theorem write_matches_size:
  assumes "entries s \<noteq> []"
  shows "\<exists>s1 n str.
           bytesSize ser s = (s1, Inr n)
           \<and> entriesToString (entries s) = Inr str
           \<and> n = length (ser (dictionary s1)) + length ''\<newline>stream\<newline>'' + length str
                 + length ''\<newline>endstream''
           \<and> (\<forall>buf. offset buf + n \<le> length (memory buf) \<longrightarrow>
                 copyBytesInto ser s1 buf =
                   (s1,
                    take (offset buf) (memory buf)
                      @ map of_char (ser (dictionary s1) @ ''\<newline>stream\<newline>'' @ str
                                     @ ''\<newline>endstream'')
                      @ drop (offset buf + n) (memory buf),
                    Inr (offset buf + n)))"
proof -
  from assms obtain w1 w2 w3 where w: "maxEntryByteWidths (entries s) = Inr (w1, w2, w3)"
    by (simp add: maxEntryByteWidths_nonempty)
  from assms obtain str where str: "entriesToString (entries s) = Inr str"
    using entriesToString_nonempty by blast
  define s1 where "s1 = fst (updateDictionary s)"
  have upd: "updateDictionary s = (s1, Inr ())"
    by (simp add: s1_def updateDictionary_nonempty [OF w str])
  have ent: "entries s1 = entries s"
    by (simp add: s1_def updateDictionary_entries)
  let ?text = "ser (dictionary s1) @ ''\<newline>stream\<newline>'' @ str @ ''\<newline>endstream''"
  let ?n = "length (ser (dictionary s1)) + length ''\<newline>stream\<newline>'' + length str
              + length ''\<newline>endstream''"
  have size: "bytesSize ser s = (s1, Inr ?n)"
    by (simp add: bytesSize_def upd ent str dict_bytesSize_def)
  have idem: "updateDictionary s1 = (s1, Inr ())"
    using upd by (rule updateDictionary_idem)
  have valid: "validateDictionary s1 = Inr ()"
    using upd by (rule updateDictionary_has_Length)
  have wr: "copyBytesInto ser s1 buf =
                 (s1, memory (addStringToBuffer ?text buf),
                  Inr (offset (addStringToBuffer ?text buf)))" for buf
    by (simp add: copyBytesInto_def idem valid ent str dict_copyBytesInto_def
        addStringToBuffer_append Let_def)
  have fits: "copyBytesInto ser s1 buf =
                (s1, take (offset buf) (memory buf) @ map of_char ?text
                       @ drop (offset buf + ?n) (memory buf),
                 Inr (offset buf + ?n))"
    if "offset buf + ?n \<le> length (memory buf)" for buf
  proof -
    have len: "length ?text = ?n" by simp
    from that have "offset buf + length ?text \<le> length (memory buf)" by simp
    then show ?thesis
      unfolding wr by (simp add: addStringToBuffer_def writeChars_fits)
  qed
  show ?thesis
    using size str fits by blast
qed

theorem write_matches_size_witness:
  "entries worked_example \<noteq> []
   \<and> bytesSize keys_rendering worked_example = (fst (updateDictionary worked_example), Inr 73)
   \<and> copyBytesInto keys_rendering (fst (updateDictionary worked_example))
         \<lparr>memory = replicate 80 0, offset = 2\<rparr>
       = (fst (updateDictionary worked_example),
          replicate 2 0
            @ map of_char
                (''TypeFilterWLength'' @ ''\<newline>stream\<newline>''
                 @ ''00 0000 FFFF\<newline>01 03E8 0000\<newline>02 0005 0003'' @ ''\<newline>endstream'')
            @ replicate 5 0,
          Inr 75)"
proof -
  let ?u = "fst (updateDictionary worked_example)"
  let ?buf = "\<lparr>memory = replicate 80 0, offset = 2\<rparr> :: buffer"
  have ne: "entries worked_example \<noteq> []"
    by (simp add: worked_example_entries)
  have ser: "keys_rendering (dictionary ?u) = ''TypeFilterWLength''"
    by (simp add: worked_example_update keys_rendering_def worked_example_dictionary)
  have size: "bytesSize keys_rendering worked_example = (?u, Inr 73)"
    using ser
    by (simp add: bytesSize_def worked_example_update worked_example_string
        dict_bytesSize_def)
  from write_matches_size [OF ne, of keys_rendering]
  obtain s1 n str where
    a: "bytesSize keys_rendering worked_example = (s1, Inr n)" and
    b: "entriesToString (entries worked_example) = Inr str" and
    c: "\<forall>buf. offset buf + n \<le> length (memory buf) \<longrightarrow>
          copyBytesInto keys_rendering s1 buf =
            (s1,
             take (offset buf) (memory buf)
               @ map of_char (keys_rendering (dictionary s1) @ ''\<newline>stream\<newline>'' @ str
                              @ ''\<newline>endstream'')
               @ drop (offset buf + n) (memory buf),
             Inr (offset buf + n))"
    by blast
  from a size have s1: "s1 = ?u" and n: "n = 73" by simp_all
  from b have str: "str = ''00 0000 FFFF\<newline>01 03E8 0000\<newline>02 0005 0003''"
    by (simp add: worked_example_string)
  have "offset ?buf + n \<le> length (memory ?buf)" by (simp add: n)
  with c have "copyBytesInto keys_rendering s1 ?buf =
            (s1,
             take (offset ?buf) (memory ?buf)
               @ map of_char (keys_rendering (dictionary s1) @ ''\<newline>stream\<newline>'' @ str
                              @ ''\<newline>endstream'')
               @ drop (offset ?buf + n) (memory ?buf),
             Inr (offset ?buf + n))"
    by blast
  then have "copyBytesInto keys_rendering ?u ?buf =
            (?u,
             replicate 2 0
               @ map of_char (''TypeFilterWLength'' @ ''\<newline>stream\<newline>''
                              @ ''00 0000 FFFF\<newline>01 03E8 0000\<newline>02 0005 0003''
                              @ ''\<newline>endstream'')
               @ replicate 5 0,
             Inr 75)"
    unfolding s1 n str ser by simp
  with ne size show ?thesis by blast
qed

section \<open>The image embedding pipeline: properties\<close>

lemma length_u8_store: "length (u8_store xs i v) = length xs"
  by (simp add: u8_store_def)

lemma length_splitLoop:
  "length (fst (splitLoop pixels i p a colorData alpha)) = length colorData
   \<and> length (snd (splitLoop pixels i p a colorData alpha)) = length alpha"
proof (induction pixels i p a colorData alpha rule: splitLoop.induct)
  case (1 pixels i p a colorData alpha)
  show ?case
  proof (cases "i < length pixels")
    case True
    with 1 show ?thesis
      by (subst (1 2) splitLoop.simps) (simp add: length_u8_store)
  next
    case False
    then show ?thesis by (subst (1 2) splitLoop.simps) simp
  qed
qed


lemma loadLoop_before: "i < idx \<Longrightarrow> loadLoop t pixels idx alpha ! i = alpha ! i"
  by (induction pixels arbitrary: idx alpha) (simp_all add: u8_store_def)

lemma loadLoop_at:
  "i < length pixels \<Longrightarrow> idx + i < length alpha \<Longrightarrow>
   loadLoop t pixels idx alpha ! (idx + i) =
     (case u8_read t (unat (pixels ! i)) of None \<Rightarrow> 0 | Some b \<Rightarrow> b)"
proof (induction pixels arbitrary: idx alpha i)
  case Nil
  then show ?case by simp
next
  case (Cons pixel pixels)
  show ?case
  proof (cases i)
    case 0
    with Cons.prems show ?thesis
      by (simp add: loadLoop_before u8_store_def)
  next
    case (Suc j)
    with Cons.prems have "j < length pixels"
      and "Suc idx + j < length (u8_store alpha idx (u8_read t (unat pixel)))"
      by (simp_all add: length_u8_store)
    from Cons.IH [OF this] Suc show ?thesis by simp
  qed
qed

lemma new_Uint8Array_of_nat: "new_Uint8Array (of_nat n) = replicate n 0"
  by (simp add: new_Uint8Array_def)

lemma new_Uint8Array_color:
  assumes "8 dvd c"
  shows "new_Uint8Array (of_nat n * (of_nat c / 8)) = replicate (n * (c div 8)) 0"
proof -
  from assms obtain k where c: "c = 8 * k" by (auto simp: dvd_def)
  have "(of_nat n * (of_nat c / 8) :: rat) = of_nat (n * (c div 8))"
    by (simp add: c)
  then show ?thesis by (simp only: new_Uint8Array_of_nat)
qed

lemma finalize_with_alpha:
  assumes "alphaChannel f = Some alpha"
  shows "finalize deflate f =
    (f\<lparr>document :=
         \<lparr>maxObjNum = maxObjNum (document f) + 2,
          objects = objects (document f) @
            [(maxObjNum (document f) + 1,
              PDFRawStream
                [(''Type'', PDFName ''XObject''),
                 (''Subtype'', PDFName ''Image''),
                 (''Height'', fromNumber (this_height f)),
                 (''Width'', fromNumber (this_width f)),
                 (''BitsPerComponent'', fromNumber 8),
                 (''Filter'', PDFName ''FlateDecode''),
                 (''ColorSpace'', PDFName ''DeviceGray''),
                 (''Decode'', PDFArray [fromNumber 0, fromNumber 1]),
                 (''Length'', fromNumber (length alpha))]
                (deflate alpha)),
             (maxObjNum (document f) + 2,
              PDFRawStream
                (dict_set ''Length'' (fromNumber (length (this_imgData f)))
                   (dict_set ''SMask'' (PDFIndirectReference (maxObjNum (document f) + 1))
                      (xObjDict f)))
                (this_imgData f))]\<rparr>,
        xObjDict :=
          dict_set ''Length'' (fromNumber (length (this_imgData f)))
            (dict_set ''SMask'' (PDFIndirectReference (maxObjNum (document f) + 1))
               (xObjDict f))\<rparr>,
     PDFIndirectReference (maxObjNum (document f) + 2))"
  using assms by (simp add: finalize_def register_def Let_def)

lemma splitAlphaChannel_decoded:
  assumes "decodePixelsSync (image f) = Inr pixels"
    and "8 dvd colors (image f) * bits (image f)"
  shows "splitAlphaChannel deflate f =
           (fst (finalize deflate
              (f\<lparr>this_imgData := deflate (fst (splitLoop pixels 0 0 0
                     (replicate (width (image f) * height (image f)
                                 * (colors (image f) * bits (image f) div 8)) 0)
                     (replicate (width (image f) * height (image f)) 0))),
                  alphaChannel := Some (snd (splitLoop pixels 0 0 0
                     (replicate (width (image f) * height (image f)
                                 * (colors (image f) * bits (image f) div 8)) 0)
                     (replicate (width (image f) * height (image f)) 0)))\<rparr>)),
            Inr (snd (finalize deflate
              (f\<lparr>this_imgData := deflate (fst (splitLoop pixels 0 0 0
                     (replicate (width (image f) * height (image f)
                                 * (colors (image f) * bits (image f) div 8)) 0)
                     (replicate (width (image f) * height (image f)) 0))),
                  alphaChannel := Some (snd (splitLoop pixels 0 0 0
                     (replicate (width (image f) * height (image f)
                                 * (colors (image f) * bits (image f) div 8)) 0)
                     (replicate (width (image f) * height (image f)) 0)))\<rparr>))))"
  by (simp only: splitAlphaChannel_def assms(1) sum.case Let_def new_Uint8Array_of_nat
      new_Uint8Array_color [OF assms(2)])

text \<open>
  C7: for every image with a native alpha channel, no alpha table and no palette, whose
  pixels decode and whose samples fill whole bytes, \<open>embedImageIn\<close> registers exactly two
  resources: first the soft mask, a \<open>DeviceGray\<close> stream holding the compressed alpha
  buffer, then the primary image, holding the compressed colour buffer, with the soft mask
  linked under \<open>SMask\<close> in its header. The alpha buffer has length \<open>width * height\<close> and the
  colour buffer length \<open>width * height * colorByteSize\<close>, where \<open>colorByteSize\<close> is
  \<open>colors * bits / 8\<close>.
\<close>

theorem native_alpha_registers_two:
  assumes "hasAlphaChannel img" and "transparency_indexed img = None"
    and "palette img = []" and "decodePixelsSync img = Inr pixels"
    and "8 dvd colors img * bits img"
  shows "\<exists>f' smaskDict primaryDict color alpha.
           embedImageIn deflate (factory_for img) doc
             = (f', Inr (PDFIndirectReference (maxObjNum doc + 2)))
           \<and> objects (document f') = objects doc @
                 [(maxObjNum doc + 1, PDFRawStream smaskDict (deflate alpha)),
                  (maxObjNum doc + 2, PDFRawStream primaryDict (deflate color))]
           \<and> dict_get primaryDict ''SMask'' = Some (PDFIndirectReference (maxObjNum doc + 1))
           \<and> dict_get smaskDict ''ColorSpace'' = Some (PDFName ''DeviceGray'')
           \<and> alphaChannel f' = Some alpha
           \<and> length alpha = width img * height img
           \<and> length color = width img * height img * (colors img * bits img div 8)"
proof -
  let ?n = "width img * height img"
  let ?split = "splitLoop pixels 0 0 0 (replicate (?n * (colors img * bits img div 8)) 0)
                  (replicate ?n 0)"
  let ?f3 = "(factory_for img)
               \<lparr>document := doc,
                xObjDict :=
                  dict_set ''ColorSpace'' (PDFName (colorSpace img))
                    [(''Type'', PDFName ''XObject''),
                     (''Subtype'', PDFName ''Image''),
                     (''BitsPerComponent'', fromNumber (bits img)),
                     (''Width'', fromNumber (width img)),
                     (''Height'', fromNumber (height img)),
                     (''Filter'', PDFName ''FlateDecode'')]\<rparr>"
  let ?f4 = "?f3\<lparr>this_imgData := deflate (fst ?split), alphaChannel := Some (snd ?split)\<rparr>"
  have len: "length (fst ?split) = ?n * (colors img * bits img div 8)"
            "length (snd ?split) = ?n"
    using length_splitLoop [of pixels 0 0 0 "replicate (?n * (colors img * bits img div 8)) 0"
        "replicate ?n 0"] by simp_all
  have dispatch: "embedImageIn deflate (factory_for img) doc = splitAlphaChannel deflate ?f3"
    using assms(1-3) by (simp add: embedImageIn_def factory_for_def Let_def)
  have split: "splitAlphaChannel deflate ?f3 =
                 (fst (finalize deflate ?f4), Inr (snd (finalize deflate ?f4)))"
    using splitAlphaChannel_decoded [of ?f3 pixels deflate] assms(4,5)
    by (simp add: factory_for_def)
  show ?thesis
    apply (rule exI [of _ "fst (finalize deflate ?f4)"])
    apply (rule exI [of _ "[(''Type'', PDFName ''XObject''),
                 (''Subtype'', PDFName ''Image''),
                 (''Height'', fromNumber (height img)),
                 (''Width'', fromNumber (width img)),
                 (''BitsPerComponent'', fromNumber 8),
                 (''Filter'', PDFName ''FlateDecode''),
                 (''ColorSpace'', PDFName ''DeviceGray''),
                 (''Decode'', PDFArray [fromNumber 0, fromNumber 1]),
                 (''Length'', fromNumber (length (snd ?split)))]"])
    apply (rule exI [of _ "xObjDict (fst (finalize deflate ?f4))"])
    apply (rule exI [of _ "fst ?split"])
    apply (rule exI [of _ "snd ?split"])
    apply (simp only: dispatch split)
    apply (simp add: len dict_get_set factory_for_def finalize_def register_def Let_def)
    done
qed

lemma embedImageIn_prepared:
  obtains f3 where
    "embedImageIn deflate f doc =
       (case transparency_indexed (image f) of
          Some _ \<Rightarrow> loadIndexedAlphaChannel deflate f3
        | None \<Rightarrow>
            (if hasAlphaChannel (image f) then splitAlphaChannel deflate f3
             else (fst (finalize deflate f3), Inr (snd (finalize deflate f3)))))"
    and "image f3 = image f"
    and "this_width f3 = this_width f"
    and "this_height f3 = this_height f"
    and "this_imgData f3 = this_imgData f"
    and "alphaChannel f3 = alphaChannel f"
    and "maxObjNum (document f3) = maxObjNum doc + (if palette (image f) = [] then 0 else 1)"
    and "objects (document f3) = objects doc @
           (if palette (image f) = [] then []
            else [(maxObjNum doc + 1,
                   PDFRawStream [(''Length'', fromNumber (length (palette (image f))))]
                     (palette (image f)))])"
    and "dict_get (xObjDict f3) ''ColorSpace'' =
           Some (if palette (image f) = [] then PDFName (colorSpace (image f))
                 else PDFArray
                        [PDFName ''Indexed'', PDFName ''DeviceRGB'',
                         PDFNumber (of_nat (length (palette (image f))) / 3 - 1),
                         PDFIndirectReference (maxObjNum doc + 1)])"
    and "dict_get (xObjDict f3) ''SMask'' = None"
proof -
  define f1 where "f1 = f\<lparr>document := doc,
                 xObjDict :=
                   [(''Type'', PDFName ''XObject''),
                    (''Subtype'', PDFName ''Image''),
                    (''BitsPerComponent'', fromNumber (bits (image f))),
                    (''Width'', fromNumber (this_width f)),
                    (''Height'', fromNumber (this_height f)),
                    (''Filter'', PDFName ''FlateDecode'')]\<rparr>"
  define f2 where "f2 = (if \<not> hasAlphaChannel (image f1) then
                  f1\<lparr>xObjDict :=
                       dict_set ''DecodeParms''
                         (PDFDictionary
                            [(''Predictor'', fromNumber 15),
                             (''Colors'', fromNumber (colors (image f1))),
                             (''BitsPerComponent'', fromNumber (bits (image f1))),
                             (''Columns'', fromNumber (this_width f1))])
                         (xObjDict f1)\<rparr>
                else f1)"
  define f3 where "f3 = (if length (palette (image f2)) = 0 then
                  f2\<lparr>xObjDict :=
                       dict_set ''ColorSpace'' (PDFName (colorSpace (image f2))) (xObjDict f2)\<rparr>
                else
                  (let reg = register
                               (PDFRawStream
                                  [(''Length'', fromNumber (length (palette (image f2))))]
                                  (palette (image f2)))
                               (document f2)
                   in f2\<lparr>document := fst reg,
                          xObjDict :=
                            dict_set ''ColorSpace''
                              (PDFArray
                                 [PDFName ''Indexed'',
                                  PDFName ''DeviceRGB'',
                                  PDFNumber (of_nat (length (palette (image f2))) / 3 - 1),
                                  snd reg])
                              (xObjDict f2)\<rparr>))"
  have f1: "image f1 = image f" "this_width f1 = this_width f" "this_height f1 = this_height f"
    "this_imgData f1 = this_imgData f" "alphaChannel f1 = alphaChannel f" "document f1 = doc"
    "dict_get (xObjDict f1) ''SMask'' = None"
    by (simp_all add: f1_def)
  have f2: "image f2 = image f" "this_width f2 = this_width f" "this_height f2 = this_height f"
    "this_imgData f2 = this_imgData f" "alphaChannel f2 = alphaChannel f" "document f2 = doc"
    "dict_get (xObjDict f2) ''SMask'' = None"
    by (cases "hasAlphaChannel (image f1)"; simp add: f2_def f1 dict_get_set)+
  have f3: "image f3 = image f" "this_width f3 = this_width f" "this_height f3 = this_height f"
    "this_imgData f3 = this_imgData f" "alphaChannel f3 = alphaChannel f"
    "dict_get (xObjDict f3) ''SMask'' = None"
    by (cases "palette (image f) = []"; simp add: f3_def f2 dict_get_set Let_def)+
  have doc3: "maxObjNum (document f3) = maxObjNum doc + (if palette (image f) = [] then 0 else 1)"
    "objects (document f3) = objects doc @
           (if palette (image f) = [] then []
            else [(maxObjNum doc + 1,
                   PDFRawStream [(''Length'', fromNumber (length (palette (image f))))]
                     (palette (image f)))])"
    "dict_get (xObjDict f3) ''ColorSpace'' =
           Some (if palette (image f) = [] then PDFName (colorSpace (image f))
                 else PDFArray
                        [PDFName ''Indexed'', PDFName ''DeviceRGB'',
                         PDFNumber (of_nat (length (palette (image f))) / 3 - 1),
                         PDFIndirectReference (maxObjNum doc + 1)])"
    by (cases "palette (image f) = []"; simp add: f3_def f2 dict_get_set Let_def register_def)+
  have "embedImageIn deflate f doc =
       (case transparency_indexed (image f3) of
          Some _ \<Rightarrow> loadIndexedAlphaChannel deflate f3
        | None \<Rightarrow>
            (if hasAlphaChannel (image f3) then splitAlphaChannel deflate f3
             else (fst (finalize deflate f3), Inr (snd (finalize deflate f3)))))"
    unfolding embedImageIn_def f3_def f2_def f1_def by (simp only: Let_def)
  then show thesis
    using f3 doc3 by (intro that [of f3]) (simp_all only:)
qed

lemma loadIndexedAlphaChannel_decoded:
  assumes "transparency_indexed (image f) = Some table"
    and "decodePixelsSync (image f) = Inr pixels"
  shows "loadIndexedAlphaChannel deflate f =
           (fst (finalize deflate
              (f\<lparr>alphaChannel :=
                   Some (loadLoop table pixels 0
                           (replicate (this_width f * this_height f) 0))\<rparr>)),
            Inr (snd (finalize deflate
              (f\<lparr>alphaChannel :=
                   Some (loadLoop table pixels 0
                           (replicate (this_width f * this_height f) 0))\<rparr>))))"
  using assms
  by (simp add: loadIndexedAlphaChannel_def Let_def new_Uint8Array_of_nat flip: of_nat_mult)


lemma finalize_alpha_objects:
  assumes "alphaChannel f = Some alpha"
  shows "snd (finalize deflate f) = PDFIndirectReference (maxObjNum (document f) + 2)"
    and "alphaChannel (fst (finalize deflate f)) = Some alpha"
    and "objects (document (fst (finalize deflate f))) =
           objects (document f) @
            [(maxObjNum (document f) + 1,
              PDFRawStream
                [(''Type'', PDFName ''XObject''),
                 (''Subtype'', PDFName ''Image''),
                 (''Height'', fromNumber (this_height f)),
                 (''Width'', fromNumber (this_width f)),
                 (''BitsPerComponent'', fromNumber 8),
                 (''Filter'', PDFName ''FlateDecode''),
                 (''ColorSpace'', PDFName ''DeviceGray''),
                 (''Decode'', PDFArray [fromNumber 0, fromNumber 1]),
                 (''Length'', fromNumber (length alpha))]
                (deflate alpha)),
             (maxObjNum (document f) + 2,
              PDFRawStream
                (dict_set ''Length'' (fromNumber (length (this_imgData f)))
                   (dict_set ''SMask'' (PDFIndirectReference (maxObjNum (document f) + 1))
                      (xObjDict f)))
                (this_imgData f))]"
  using assms by (simp_all add: finalize_with_alpha [OF assms])



lemma replicate_numeral: "replicate (numeral k) x = x # replicate (pred_numeral k) x"
  by (simp add: numeral_eq_Suc)

lemma list_update_numeral:
  "(x # xs)[numeral k := y] = x # xs[pred_numeral k := y]"
  by (simp add: numeral_eq_Suc)

lemma rgba_pixel_embedded:
  "embedImageIn deflate (factory_for rgba_pixel) empty_document =
     ((factory_for rgba_pixel)
        \<lparr>this_imgData := deflate [255, 0, 7],
         alphaChannel := Some [128],
         xObjDict :=
           [(''Type'', PDFName ''XObject''),
            (''Subtype'', PDFName ''Image''),
            (''BitsPerComponent'', PDFNumber 8),
            (''Width'', PDFNumber 1),
            (''Height'', PDFNumber 1),
            (''Filter'', PDFName ''FlateDecode''),
            (''ColorSpace'', PDFName ''DeviceRGB''),
            (''SMask'', PDFIndirectReference 1),
            (''Length'', fromNumber (length (deflate [255, 0, 7])))],
         document :=
           \<lparr>maxObjNum = 2,
            objects =
              [(1, PDFRawStream
                     [(''Type'', PDFName ''XObject''),
                      (''Subtype'', PDFName ''Image''),
                      (''Height'', PDFNumber 1),
                      (''Width'', PDFNumber 1),
                      (''BitsPerComponent'', PDFNumber 8),
                      (''Filter'', PDFName ''FlateDecode''),
                      (''ColorSpace'', PDFName ''DeviceGray''),
                      (''Decode'', PDFArray [PDFNumber 0, PDFNumber 1]),
                      (''Length'', PDFNumber 1)]
                     (deflate [128])),
               (2, PDFRawStream
                     [(''Type'', PDFName ''XObject''),
                      (''Subtype'', PDFName ''Image''),
                      (''BitsPerComponent'', PDFNumber 8),
                      (''Width'', PDFNumber 1),
                      (''Height'', PDFNumber 1),
                      (''Filter'', PDFName ''FlateDecode''),
                      (''ColorSpace'', PDFName ''DeviceRGB''),
                      (''SMask'', PDFIndirectReference 1),
                      (''Length'', fromNumber (length (deflate [255, 0, 7])))]
                     (deflate [255, 0, 7]))]\<rparr>\<rparr>,
      Inr (PDFIndirectReference 2))"
  by (simp add: embedImageIn_def factory_for_def rgba_pixel_def empty_document_def
      splitAlphaChannel_def finalize_def register_def Let_def new_Uint8Array_def
      splitLoop.simps u8_store_def u8_read_def fromNumber_def replicate_numeral
      list_update_numeral)

text \<open>
  C2, at the image of one RGBA pixel: the soft mask is registered with \<open>Length\<close> 1, the length
  of the alpha buffer before compression, and with the compressed buffer \<open>deflate [128]\<close> as
  its payload, whatever the compressor returns. The header's \<open>Length\<close> is not the byte length
  of the registered payload.
\<close>

theorem soft_mask_length_is_uncompressed_length:
  "objects (document (fst (embedImageIn deflate (factory_for rgba_pixel) empty_document))) ! 0 =
     (1, PDFRawStream
           [(''Type'', PDFName ''XObject''),
            (''Subtype'', PDFName ''Image''),
            (''Height'', PDFNumber 1),
            (''Width'', PDFNumber 1),
            (''BitsPerComponent'', PDFNumber 8),
            (''Filter'', PDFName ''FlateDecode''),
            (''ColorSpace'', PDFName ''DeviceGray''),
            (''Decode'', PDFArray [PDFNumber 0, PDFNumber 1]),
            (''Length'', PDFNumber 1)]
           (deflate [128]))"
  by (simp add: rgba_pixel_embedded)

theorem native_alpha_registers_two_witness:
  "hasAlphaChannel rgba_pixel \<and> transparency_indexed rgba_pixel = None
   \<and> palette rgba_pixel = [] \<and> decodePixelsSync rgba_pixel = Inr [255, 0, 7, 128]
   \<and> 8 dvd colors rgba_pixel * bits rgba_pixel
   \<and> (\<exists>f' smaskDict primaryDict color alpha.
         embedImageIn example_deflate (factory_for rgba_pixel) empty_document
           = (f', Inr (PDFIndirectReference 2))
         \<and> objects (document f') =
               [(1, PDFRawStream smaskDict (example_deflate alpha)),
                (2, PDFRawStream primaryDict (example_deflate color))]
         \<and> dict_get primaryDict ''SMask'' = Some (PDFIndirectReference 1)
         \<and> dict_get smaskDict ''ColorSpace'' = Some (PDFName ''DeviceGray'')
         \<and> alphaChannel f' = Some alpha
         \<and> length alpha = 1
         \<and> length color = 3)"
proof -
  have h: "hasAlphaChannel rgba_pixel" "transparency_indexed rgba_pixel = None"
    "palette rgba_pixel = []" "decodePixelsSync rgba_pixel = Inr [255, 0, 7, 128]"
    "8 dvd colors rgba_pixel * bits rgba_pixel"
    by (simp_all add: rgba_pixel_def)
  have v: "width rgba_pixel = 1" "height rgba_pixel = 1" "colors rgba_pixel * bits rgba_pixel = 24"
    by (simp_all add: rgba_pixel_def)
  from native_alpha_registers_two [OF h, of example_deflate empty_document] h
  show ?thesis
    by (simp add: v empty_document_def numeral_2_eq_2)
qed


text \<open>
  C10: for every image with an alpha table whose pixels decode, a pixel position \<open>i\<close> whose
  palette index lies outside the table gets the byte 0 in the alpha buffer; \<open>embedImageIn\<close>
  succeeds, and the soft mask it registers holds that buffer (compressed).
\<close>

theorem out_of_table_index_is_transparent:
  assumes "transparency_indexed img = Some table"
    and "decodePixelsSync img = Inr pixels"
    and "i < length pixels" and "i < width img * height img"
    and "length table \<le> unat (pixels ! i)"
  shows "\<exists>f' ref smaskDict alpha.
           embedImageIn deflate (factory_for img) doc = (f', Inr ref)
           \<and> alphaChannel f' = Some alpha
           \<and> alpha ! i = 0
           \<and> (maxObjNum (document f') - 1, PDFRawStream smaskDict (deflate alpha))
                 \<in> set (objects (document f'))
           \<and> dict_get smaskDict ''ColorSpace'' = Some (PDFName ''DeviceGray'')"
proof -
  let ?alpha = "loadLoop table pixels 0 (replicate (width img * height img) 0)"
  obtain f3 where
    run: "embedImageIn deflate (factory_for img) doc =
       (case transparency_indexed (image (factory_for img)) of
          Some _ \<Rightarrow> loadIndexedAlphaChannel deflate f3
        | None \<Rightarrow>
            (if hasAlphaChannel (image (factory_for img)) then splitAlphaChannel deflate f3
             else (fst (finalize deflate f3), Inr (snd (finalize deflate f3)))))"
    and f3: "image f3 = image (factory_for img)"
      "this_width f3 = this_width (factory_for img)"
      "this_height f3 = this_height (factory_for img)"
    by (rule embedImageIn_prepared [of deflate "factory_for img" doc])
  have img: "image (factory_for img) = img" "this_width (factory_for img) = width img"
    "this_height (factory_for img) = height img"
    by (simp_all add: factory_for_def)
  let ?f4 = "f3\<lparr>alphaChannel := Some ?alpha\<rparr>"
  have load: "loadIndexedAlphaChannel deflate f3 =
                (fst (finalize deflate ?f4), Inr (snd (finalize deflate ?f4)))"
    using loadIndexedAlphaChannel_decoded [of f3 table pixels deflate] assms(1,2)
    by (simp add: f3 img)
  have a4: "alphaChannel ?f4 = Some ?alpha" by simp
  note fin = finalize_alpha_objects [OF a4, of deflate]
  have num: "maxObjNum (document (fst (finalize deflate ?f4))) = maxObjNum (document f3) + 2"
    by (simp add: finalize_with_alpha [OF a4])
  have zero: "?alpha ! i = 0"
    using loadLoop_at [of i pixels 0 "replicate (width img * height img) 0" table] assms(3-5)
    by (simp add: u8_read_def)
  have res: "embedImageIn deflate (factory_for img) doc =
               (fst (finalize deflate ?f4), Inr (snd (finalize deflate ?f4)))"
    using assms(1) by (simp add: run img load)
  show ?thesis
    apply (rule exI [of _ "fst (finalize deflate ?f4)"])
    apply (rule exI [of _ "snd (finalize deflate ?f4)"])
    apply (rule exI [of _ "[(''Type'', PDFName ''XObject''),
                 (''Subtype'', PDFName ''Image''),
                 (''Height'', fromNumber (height img)),
                 (''Width'', fromNumber (width img)),
                 (''BitsPerComponent'', fromNumber 8),
                 (''Filter'', PDFName ''FlateDecode''),
                 (''ColorSpace'', PDFName ''DeviceGray''),
                 (''Decode'', PDFArray [fromNumber 0, fromNumber 1]),
                 (''Length'', fromNumber (length ?alpha))]"])
    apply (rule exI [of _ ?alpha])
    apply (simp add: res fin(2,3) num zero f3 img)
    done
qed

text \<open>
  C4, as the code has it: when \<open>embedImageIn\<close> fails, the failure is the decoder's, and neither
  the primary image nor a soft mask has been registered. The palette stream of an image with
  a palette was registered before the pixels were decoded and stays registered; only for an
  image without a palette does the failed call leave the registry as it was.
\<close>

theorem failed_embed_registers_only_palette:
  assumes "embedImageIn deflate f doc = (f', Inl e)"
  shows "decodePixelsSync (image f) = Inl e
         \<and> objects (document f') = objects doc @
             (if palette (image f) = [] then []
              else [(maxObjNum doc + 1,
                     PDFRawStream [(''Length'', fromNumber (length (palette (image f))))]
                       (palette (image f)))])"
proof -
  obtain f3 where
    run: "embedImageIn deflate f doc =
       (case transparency_indexed (image f) of
          Some _ \<Rightarrow> loadIndexedAlphaChannel deflate f3
        | None \<Rightarrow>
            (if hasAlphaChannel (image f) then splitAlphaChannel deflate f3
             else (fst (finalize deflate f3), Inr (snd (finalize deflate f3)))))"
    and f3: "image f3 = image f"
    and doc3: "objects (document f3) = objects doc @
           (if palette (image f) = [] then []
            else [(maxObjNum doc + 1,
                   PDFRawStream [(''Length'', fromNumber (length (palette (image f))))]
                     (palette (image f)))])"
    by (rule embedImageIn_prepared [of deflate f doc])
  have "decodePixelsSync (image f) = Inl e \<and> document f' = document f3"
  proof (cases "transparency_indexed (image f)")
    case (Some table)
    with assms run have "loadIndexedAlphaChannel deflate f3 = (f', Inl e)" by simp
    with Some show ?thesis
      by (auto simp: loadIndexedAlphaChannel_def Let_def f3 split: sum.splits)
  next
    case None
    show ?thesis
    proof (cases "hasAlphaChannel (image f)")
      case True
      with None assms run have "splitAlphaChannel deflate f3 = (f', Inl e)" by simp
      then show ?thesis
        by (auto simp: splitAlphaChannel_def Let_def f3 split: sum.splits)
    next
      case False
      with None assms run show ?thesis by simp
    qed
  qed
  with doc3 show ?thesis by simp
qed

lemma indexed_undecodable_embedded:
  "snd (embedImageIn example_deflate (factory_for indexed_undecodable) empty_document)
     = Inl UnsupportedFormatError"
  "objects (document
     (fst (embedImageIn example_deflate (factory_for indexed_undecodable) empty_document)))
     = [(1, PDFRawStream [(''Length'', PDFNumber 12)]
              [255, 0, 0, 0, 255, 0, 0, 0, 255, 9, 9, 9])]"
  by (simp_all add: embedImageIn_def factory_for_def indexed_undecodable_def indexed_2x2_def
      empty_document_def loadIndexedAlphaChannel_def register_def Let_def fromNumber_def)

text \<open>
  The indexed example image whose pixels the decoder rejects: the call fails, and the registry,
  empty before the call, holds the palette stream after it.
\<close>

theorem failed_embed_leaves_palette_counterexample:
  "snd (embedImageIn example_deflate (factory_for indexed_undecodable) empty_document)
     = Inl UnsupportedFormatError
   \<and> objects empty_document = []
   \<and> objects (document
        (fst (embedImageIn example_deflate (factory_for indexed_undecodable) empty_document)))
       = [(1, PDFRawStream [(''Length'', PDFNumber 12)]
                [255, 0, 0, 0, 255, 0, 0, 0, 255, 9, 9, 9])]"
  using indexed_undecodable_embedded by (simp add: empty_document_def)

theorem failed_embed_registers_only_palette_witness:
  "embedImageIn example_deflate (factory_for indexed_undecodable) empty_document
     = (fst (embedImageIn example_deflate (factory_for indexed_undecodable) empty_document),
        Inl UnsupportedFormatError)
   \<and> decodePixelsSync (image (factory_for indexed_undecodable)) = Inl UnsupportedFormatError
   \<and> objects (document
        (fst (embedImageIn example_deflate (factory_for indexed_undecodable) empty_document)))
       = objects empty_document @
           [(maxObjNum empty_document + 1,
             PDFRawStream [(''Length'', fromNumber 12)]
               [255, 0, 0, 0, 255, 0, 0, 0, 255, 9, 9, 9])]"
proof -
  let ?r = "embedImageIn example_deflate (factory_for indexed_undecodable) empty_document"
  have eq: "?r = (fst ?r, Inl UnsupportedFormatError)"
    by (simp add: prod_eq_iff indexed_undecodable_embedded(1))
  have pal: "palette (image (factory_for indexed_undecodable))
               = [255, 0, 0, 0, 255, 0, 0, 0, 255, 9, 9, 9]"
    by (simp add: factory_for_def indexed_undecodable_def indexed_2x2_def)
  from failed_embed_registers_only_palette [OF eq] eq show ?thesis
    by (simp add: pal fromNumber_def)
qed





theorem out_of_table_index_is_transparent_witness:
  "transparency_indexed indexed_2x2 = Some [10, 20]
   \<and> decodePixelsSync indexed_2x2 = Inr [0, 1, 2, 1]
   \<and> (2::nat) < length [0, 1, 2, 1 :: byte]
   \<and> 2 < width indexed_2x2 * height indexed_2x2
   \<and> length [10, 20 :: byte] \<le> unat ([0, 1, 2, 1 :: byte] ! 2)
   \<and> (\<exists>f' ref smaskDict alpha.
         embedImageIn example_deflate (factory_for indexed_2x2) empty_document = (f', Inr ref)
         \<and> alphaChannel f' = Some alpha
         \<and> alpha ! 2 = 0
         \<and> (maxObjNum (document f') - 1, PDFRawStream smaskDict (example_deflate alpha))
               \<in> set (objects (document f'))
         \<and> dict_get smaskDict ''ColorSpace'' = Some (PDFName ''DeviceGray''))"
proof -
  have h: "transparency_indexed indexed_2x2 = Some [10, 20]"
    "decodePixelsSync indexed_2x2 = Inr [0, 1, 2, 1]"
    "(2::nat) < length [0, 1, 2, 1 :: byte]"
    "2 < width indexed_2x2 * height indexed_2x2"
    "length [10, 20 :: byte] \<le> unat ([0, 1, 2, 1 :: byte] ! 2)"
    by (simp_all add: indexed_2x2_def)
  from out_of_table_index_is_transparent [OF h, of example_deflate empty_document] h
  show ?thesis by blast
qed

end
